theory Spec2Isabelle
  imports Main
begin

section \<open>pyzcm GPU miner: data model\<close>

text \<open>
  The embedding follows \<^verbatim>\<open>pyzcm/miner/gpu.py\<close>. Python objects become records, one
  record per class, a base class being the record the subclass extends. \<^verbatim>\<open>None\<close> is
  \<open>None\<close> of an option type. A \<^verbatim>\<open>multiprocessing\<close> manager queue is the list of the
  items it holds, oldest first: \<^verbatim>\<open>put\<close> appends at the end, \<^verbatim>\<open>get\<close> takes the head.
\<close>

type_synonym bytes = string

record mining_job =
  job_id :: string
  job_data :: bytes

text \<open>The tuple \<^verbatim>\<open>(job, nonce2, len_and_solution, solution_count)\<close> of the result queue.\<close>

type_synonym solution_msg = "mining_job \<times> bytes \<times> bytes \<times> int"

text \<open>The tuple \<^verbatim>\<open>(job, nonce1, solver_nonce)\<close> of the work queue; each component is a
  Python value that may be \<^verbatim>\<open>None\<close>.\<close>

type_synonym context_msg = "mining_job option \<times> bytes option \<times> bytes option"

text \<open>
  Exceptions are values. \<open>KeyboardInterrupt\<close> and \<open>SystemExit\<close> derive from
  \<^verbatim>\<open>BaseException\<close> only, every other class here derives from \<^verbatim>\<open>Exception\<close>.
\<close>

datatype exn_class =
    AssertionError
  | AttributeError
  | TypeError
  | OtherException string
  | KeyboardInterrupt
  | SystemExit

datatype exn = Exn (exn_class: exn_class) (exn_text: string)


text \<open>
  \<^verbatim>\<open>GenericMiner\<close> is not part of the sources at hand; the fields below are the ones
  \<^verbatim>\<open>gpu.py\<close> reads and writes on \<^verbatim>\<open>self\<close>.
\<close>

record GenericMiner =
  solver_nonce :: "bytes option"
  nonce1 :: "bytes option"

record 's GpuMinerProcess = GenericMiner +
  solver_class :: "nat \<times> nat \<Rightarrow> bool \<Rightarrow> exn + 's"
  solution_count :: int
  gpu_id :: "nat \<times> nat"
  result_queue :: "solution_msg list option"

section \<open>The worker: \<^verbatim>\<open>_GpuMinerProcess\<close>\<close>

text \<open>Modelled from the spec: \<^verbatim>\<open>GenericMiner.__init__\<close> is missing; it keeps the solver
  nonce given at construction and starts with no nonce1.\<close>

definition GenericMiner_init :: "bytes option \<Rightarrow> GenericMiner" where
  "GenericMiner_init sn = \<lparr>solver_nonce = sn, nonce1 = None\<rparr>"

definition GpuMinerProcess_init ::
  "bytes option \<Rightarrow> nat \<times> nat \<Rightarrow> (nat \<times> nat \<Rightarrow> bool \<Rightarrow> exn + 's) \<Rightarrow> 's GpuMinerProcess" where
  "GpuMinerProcess_init sn gid cls =
     GenericMiner.extend (GenericMiner_init sn)
       (GpuMinerProcess.fields cls 0 gid None)"

definition count_solutions :: "int \<Rightarrow> 's GpuMinerProcess \<Rightarrow> 's GpuMinerProcess" where
  "count_solutions count self = self\<lparr>solution_count := solution_count self + count\<rparr>"

definition submit_solution ::
  "mining_job \<Rightarrow> bytes \<Rightarrow> bytes \<Rightarrow> 's GpuMinerProcess \<Rightarrow> exn + 's GpuMinerProcess" where
  "submit_solution jb nonce2 len_and_solution self =
     (case result_queue self of
        None \<Rightarrow> Inl (Exn AssertionError [])
      | Some q \<Rightarrow>
          Inr (self\<lparr>result_queue := Some (q @ [(jb, nonce2, len_and_solution, solution_count self)]),
                    solution_count := 0\<rparr>))"

text \<open>A run of \<^verbatim>\<open>count_solutions\<close> calls, one per element of the list.\<close>

fun count_all :: "int list \<Rightarrow> 's GpuMinerProcess \<Rightarrow> 's GpuMinerProcess" where
  "count_all [] self = self"
| "count_all (c # cs) self = count_all cs (count_solutions c self)"

subsection \<open>Observable effects\<close>

text \<open>
  Log records, sleeps, terminal output and calls of collaborators are recorded as a list of
  effects, in program order. A log message is kept in structured form: one constructor
  per format string of the source, its fields the values formatted into it.
\<close>

text \<open>The levels of \<^verbatim>\<open>logging\<close>; \<^verbatim>\<open>FATAL\<close> is another name of \<^verbatim>\<open>CRITICAL\<close>.\<close>

datatype level = DEBUG | INFO | WARNING | ERROR | CRITICAL

datatype log_msg =
    Instantiating_GPU_solver bool
  | Instantiated_GPU_solver bool
  | Received_mining_job string bytes bytes
  | No_nonce1_waiting
  | No_new_job_running_POW
  | Instantiated_MinerProcess
  | FATAL exn string
  | Queueing_new_job string
  | Starting_process_backend
  | Received_solution_from_backend

type_synonym callback = nat

datatype effect =
    Log level log_msg
  | Sleep nat
  | Print string
  | Do_pow mining_job
  | Spawn_miner_process "bytes option" "nat \<times> nat"
  | Accounting callback int
  | Forward_submission mining_job bytes bytes

definition hexdigit :: "nat \<Rightarrow> char" where
  "hexdigit n = ''0123456789abcdef'' ! n"

definition hexlify :: "bytes \<Rightarrow> bytes" where
  "hexlify bs = concat (map (\<lambda>c. [hexdigit (of_char c div 16), hexdigit (of_char c mod 16)]) bs)"

subsection \<open>The worker loop\<close>

text \<open>
  \<^verbatim>\<open>do_pow\<close> is inherited from \<^verbatim>\<open>GenericMiner\<close> and not available: it is a parameter
  that, given the solver, the job and the miner object, raises or returns the solver and
  the miner object as it left them.
\<close>

type_synonym 's do_pow =
  "'s \<Rightarrow> mining_job \<Rightarrow> 's GpuMinerProcess \<Rightarrow> exn + 's \<times> 's GpuMinerProcess"

text \<open>The variables of \<^verbatim>\<open>run\<close>: \<^verbatim>\<open>self\<close>, the locals \<^verbatim>\<open>solver\<close> and \<^verbatim>\<open>job\<close>, and the
  contents of the work queue.\<close>

record 's run_state =
  self :: "'s GpuMinerProcess"
  solver :: 's
  job :: "mining_job option"
  work_queue_in :: "context_msg list"

text \<open>
  The arguments of the \<^verbatim>\<open>log.info\<close> call after a successful receive are evaluated before
  the call, left to right: \<^verbatim>\<open>job.job_id\<close> raises \<^verbatim>\<open>AttributeError\<close> on \<^verbatim>\<open>None\<close>, and
  \<^verbatim>\<open>binascii.hexlify\<close> raises \<^verbatim>\<open>TypeError\<close> on \<^verbatim>\<open>None\<close>.
\<close>

definition received_log_msg :: "context_msg \<Rightarrow> exn + mining_job \<times> log_msg" where
  "received_log_msg m =
     (case m of (j, n1, sn) \<Rightarrow>
        (case j of
           None \<Rightarrow> Inl (Exn AttributeError ''NoneType object has no attribute job_id'')
         | Some jb \<Rightarrow>
            (case n1 of
               None \<Rightarrow> Inl (Exn TypeError ''a bytes-like object is required, not NoneType'')
             | Some b1 \<Rightarrow>
                (case sn of
                   None \<Rightarrow> Inl (Exn TypeError ''a bytes-like object is required, not NoneType'')
                 | Some bs \<Rightarrow>
                     Inr (jb, Received_mining_job (job_id jb) (hexlify b1) (hexlify bs))))))"

definition call_do_pow :: "'s do_pow \<Rightarrow> 's run_state \<Rightarrow> mining_job \<Rightarrow> exn + 's run_state" where
  "call_do_pow dp st jb =
     (case dp (solver st) jb (self st) of
        Inl e \<Rightarrow> Inl e
      | Inr (s', self') \<Rightarrow> Inr (st\<lparr>self := self', solver := s'\<rparr>))"

text \<open>
  One pass through the body of \<^verbatim>\<open>while True\<close>. \<^verbatim>\<open>work_queue.get(False)\<close> takes the
  oldest item or raises \<^verbatim>\<open>queue.Empty\<close>. The result is the effects of the pass and either
  the exception that left the loop or the state at the next pass.
\<close>

definition loop_body :: "'s do_pow \<Rightarrow> 's run_state \<Rightarrow> effect list \<times> (exn + 's run_state)" where
  "loop_body dp st =
     (case work_queue_in st of
        m # rest \<Rightarrow>
          (case m of (j, n1, sn) \<Rightarrow>
             (let st1 = st\<lparr>job := j,
                          self := (self st)\<lparr>solver_nonce := sn, nonce1 := n1\<rparr>,
                          work_queue_in := rest\<rparr>
              in case received_log_msg m of
                   Inl e \<Rightarrow> ([], Inl e)
                 | Inr (jb, msg) \<Rightarrow> ([Log INFO msg, Do_pow jb], call_do_pow dp st1 jb)))
      | [] \<Rightarrow>
          (case job st of
             None \<Rightarrow> ([Log DEBUG No_nonce1_waiting, Sleep 2, Print ''.''], Inr st)
           | Some jb \<Rightarrow>
               if nonce1 (self st) = None
               then ([Log DEBUG No_nonce1_waiting, Sleep 2, Print ''.''], Inr st)
               else ([Log DEBUG No_new_job_running_POW, Do_pow jb], call_do_pow dp st jb)))"

text \<open>
  The loop has no exit but an exception. It is run against a schedule: the \<open>k\<close>-th
  element lists the items put on the work queue since the previous poll. \<open>Inr st\<close> is
  the state of a loop that is still running when the schedule ends.
\<close>

fun worker_loop ::
  "'s do_pow \<Rightarrow> 's run_state \<Rightarrow> context_msg list list \<Rightarrow> effect list \<times> (exn + 's run_state)" where
  "worker_loop dp st [] = ([], Inr st)"
| "worker_loop dp st (arrived # sched) =
     (case loop_body dp (st\<lparr>work_queue_in := work_queue_in st @ arrived\<rparr>) of
        (es, Inl e) \<Rightarrow> (es, Inl e)
      | (es, Inr st') \<Rightarrow>
          (case worker_loop dp st' sched of (es', r) \<Rightarrow> (es @ es', r)))"

text \<open>\<^verbatim>\<open>is_logger_verbose()\<close> is inherited and not available: its value is the parameter
  \<open>verbose\<close>.\<close>

definition run ::
  "'s do_pow \<Rightarrow> bool \<Rightarrow> 's GpuMinerProcess \<Rightarrow> solution_msg list \<Rightarrow> context_msg list \<Rightarrow>
     context_msg list list \<Rightarrow> effect list \<times> (exn + 's run_state)" where
  "run dp verbose slf result_q work_q sched =
     (case solver_class slf (gpu_id slf) verbose of
        Inl e \<Rightarrow> ([Log DEBUG (Instantiating_GPU_solver verbose)], Inl e)
      | Inr s \<Rightarrow>
          (case worker_loop dp
                  \<lparr>self = slf\<lparr>result_queue := Some result_q\<rparr>, solver = s, job = None,
                   work_queue_in = work_q\<rparr> sched of
             (es, r) \<Rightarrow>
               ([Log DEBUG (Instantiating_GPU_solver verbose),
                 Log DEBUG (Instantiated_GPU_solver verbose)] @ es, r)))"

section \<open>The supervisor: \<^verbatim>\<open>run_miner_process\<close>\<close>



section \<open>The frontend: \<^verbatim>\<open>GpuMiner\<close>\<close>

text \<open>
  \<^verbatim>\<open>AsyncMiner\<close> is not part of the sources at hand; its fields are the ones
  \<^verbatim>\<open>gpu.py\<close> uses (\<open>stop\<close> is \<^verbatim>\<open>_stop\<close>) and the callbacks the constructor and
  \<^verbatim>\<open>register_new_job\<close> hand to it. The fields of \<^verbatim>\<open>GpuMiner\<close> that share a name
  with a field of the worker carry the prefix \<open>fe\<close>.
\<close>

record AsyncMiner = GenericMiner +
  last_received_job :: "mining_job option"
  on_share :: "callback option"
  counter :: callback
  stop :: bool

record 's GpuMiner = AsyncMiner +
  fe_solver_class :: "nat \<times> nat \<Rightarrow> bool \<Rightarrow> exn + 's"
  work_queue :: "context_msg list"
  fe_result_queue :: "solution_msg list"
  fe_gpu_id :: "nat \<times> nat"

text \<open>Modelled from the spec: \<^verbatim>\<open>AsyncMiner.__init__\<close> is missing; it manages the current
  job, the current nonce1 and the stop flag, none of them set at construction.\<close>

definition AsyncMiner_init :: "bytes option \<Rightarrow> callback \<Rightarrow> AsyncMiner" where
  "AsyncMiner_init sn cnt =
     GenericMiner.extend (GenericMiner_init sn) (AsyncMiner.fields None None cnt False)"

definition GpuMiner_init ::
  "bytes option \<Rightarrow> callback \<Rightarrow> nat \<times> nat \<Rightarrow> (nat \<times> nat \<Rightarrow> bool \<Rightarrow> exn + 's) \<Rightarrow> 's GpuMiner" where
  "GpuMiner_init sn cnt gid cls =
     AsyncMiner.extend (AsyncMiner_init sn cnt) (GpuMiner.fields cls [] [] gid)"

text \<open>Modelled from the spec: \<^verbatim>\<open>AsyncMiner.set_nonce1\<close> is missing; it stores nonce1.\<close>

definition AsyncMiner_set_nonce1 :: "bytes option \<Rightarrow> 's GpuMiner \<Rightarrow> 's GpuMiner" where
  "AsyncMiner_set_nonce1 n slf = slf\<lparr>nonce1 := n\<rparr>"

text \<open>Modelled from the spec: \<^verbatim>\<open>AsyncMiner.register_new_job\<close> is missing; it records the
  job and the share-submission callback.\<close>

definition AsyncMiner_register_new_job ::
  "mining_job option \<Rightarrow> callback \<Rightarrow> 's GpuMiner \<Rightarrow> 's GpuMiner" where
  "AsyncMiner_register_new_job j cb slf = slf\<lparr>last_received_job := j, on_share := Some cb\<rparr>"

text \<open>Modelled from the spec: \<^verbatim>\<open>AsyncMiner.count_solutions\<close> is missing; it applies the
  counter to the shared accounting callback.\<close>

definition AsyncMiner_count_solutions :: "int \<Rightarrow> 's GpuMiner \<Rightarrow> effect list \<times> 's GpuMiner" where
  "AsyncMiner_count_solutions counted slf = ([Accounting (counter slf) counted], slf)"

text \<open>Modelled from the spec: \<^verbatim>\<open>AsyncMiner.submit_solution\<close> is missing; it forwards the
  solution for submission.\<close>

definition AsyncMiner_submit_solution ::
  "mining_job \<Rightarrow> bytes \<Rightarrow> bytes \<Rightarrow> 's GpuMiner \<Rightarrow> effect list \<times> 's GpuMiner" where
  "AsyncMiner_submit_solution jb nonce2 len_and_solution slf =
     ([Forward_submission jb nonce2 len_and_solution], slf)"

definition enqueue_last_mining_job :: "'s GpuMiner \<Rightarrow> effect list \<times> 's GpuMiner" where
  "enqueue_last_mining_job slf =
     (case last_received_job slf of
        None \<Rightarrow> ([], slf)
      | Some jb \<Rightarrow>
          if nonce1 slf \<noteq> None
          then ([Log INFO (Queueing_new_job (job_id jb))],
                slf\<lparr>work_queue := work_queue slf @ [(last_received_job slf, nonce1 slf, solver_nonce slf)]\<rparr>)
          else ([], slf))"

definition set_nonce1 :: "bytes option \<Rightarrow> 's GpuMiner \<Rightarrow> effect list \<times> 's GpuMiner" where
  "set_nonce1 n slf = enqueue_last_mining_job (AsyncMiner_set_nonce1 n slf)"

definition register_new_job ::
  "mining_job option \<Rightarrow> callback \<Rightarrow> 's GpuMiner \<Rightarrow> effect list \<times> 's GpuMiner" where
  "register_new_job j cb slf = enqueue_last_mining_job (AsyncMiner_register_new_job j cb slf)"

text \<open>
  The coroutine \<^verbatim>\<open>GpuMiner.run\<close> ends when it finds the stop flag set, or it stays
  suspended in the receive it has handed to the thread executor.
\<close>

datatype 'a run_result = Finished 'a | Suspended 'a

text \<open>
  The loop of \<^verbatim>\<open>GpuMiner.run\<close> against the deliveries of the result queue: each is the
  message that the blocking \<^verbatim>\<open>get\<close> returns, with the value \<^verbatim>\<open>_stop\<close> has when the loop
  tests it next (other coroutines run while this one is suspended).
\<close>

fun frontend_loop ::
  "'s GpuMiner \<Rightarrow> (solution_msg \<times> bool) list \<Rightarrow> effect list \<times> 's GpuMiner run_result" where
  "frontend_loop slf [] = (if stop slf then ([], Finished slf) else ([], Suspended slf))"
| "frontend_loop slf ((m, stop_next) # ds) =
     (if stop slf then ([], Finished slf)
      else case m of (jb, nonce2, len_and_solution, counted) \<Rightarrow>
        (case AsyncMiner_count_solutions counted slf of (e1, s1) \<Rightarrow>
          (case AsyncMiner_submit_solution jb nonce2 len_and_solution s1 of (e2, s2) \<Rightarrow>
            (case frontend_loop (s2\<lparr>stop := stop_next\<rparr>) ds of (es, r) \<Rightarrow>
               (Log DEBUG Received_solution_from_backend # e1 @ e2 @ es, r)))))"

definition GpuMiner_run ::
  "'s GpuMiner \<Rightarrow> (solution_msg \<times> bool) list \<Rightarrow> effect list \<times> 's GpuMiner run_result" where
  "GpuMiner_run slf ds =
     (case frontend_loop slf ds of (es, r) \<Rightarrow>
        (Log DEBUG Starting_process_backend
           # Spawn_miner_process (solver_nonce slf) (fe_gpu_id slf) # es, r))"

section \<open>Concrete inputs\<close>

text \<open>Jobs, nonces, solver classes and \<^verbatim>\<open>do_pow\<close> bodies on which the model is run.
  The solver of these examples is a counter of the calls it has served.\<close>

definition J1 :: mining_job where
  "J1 = \<lparr>job_id = ''1a'', job_data = ''first''\<rparr>"

definition J2 :: mining_job where
  "J2 = \<lparr>job_id = ''2b'', job_data = ''second''\<rparr>"

definition N1 :: bytes where
  "N1 = ''n1''"

definition SN :: bytes where
  "SN = ''sn''"

definition solver_class_ok :: "nat \<times> nat \<Rightarrow> bool \<Rightarrow> exn + nat" where
  "solver_class_ok gid verbose = Inr 0"


text \<open>A \<^verbatim>\<open>do_pow\<close> that counts one attempt and submits one solution.\<close>

definition do_pow_found :: "nat do_pow" where
  "do_pow_found s jb w =
     (case submit_solution jb ''n2'' ''sol'' (count_solutions 1 w) of
        Inl e \<Rightarrow> Inl e
      | Inr w' \<Rightarrow> Inr (Suc s, w'))"




definition worker_started :: "nat GpuMinerProcess" where
  "worker_started = (GpuMinerProcess_init (Some SN) (0, 0) solver_class_ok)\<lparr>result_queue := Some []\<rparr>"

definition frontend_fresh :: "nat GpuMiner" where
  "frontend_fresh = GpuMiner_init (Some SN) 0 (0, 0) solver_class_ok"

text \<open>The variables of \<^verbatim>\<open>run\<close> at the first poll, and with a first context in place.\<close>

definition state_no_context :: "nat run_state" where
  "state_no_context = \<lparr>self = worker_started, solver = 0, job = None, work_queue_in = []\<rparr>"



section \<open>Properties\<close>

subsection \<open>Construction\<close>

lemma GpuMinerProcess_init_fields:
  "GpuMinerProcess_init sn gid cls =
     \<lparr>solver_nonce = sn, nonce1 = None, solver_class = cls, solution_count = 0, gpu_id = gid,
      result_queue = None\<rparr>"
  by (simp add: GpuMinerProcess_init_def GenericMiner_init_def GenericMiner.defs
        GpuMinerProcess.defs)

lemma GpuMiner_init_fields:
  "GpuMiner_init sn cnt gid cls =
     \<lparr>solver_nonce = sn, nonce1 = None, last_received_job = None, on_share = None,
      counter = cnt, stop = False, fe_solver_class = cls, work_queue = [],
      fe_result_queue = [], fe_gpu_id = gid\<rparr>"
  by (simp add: GpuMiner_init_def AsyncMiner_init_def GenericMiner_init_def GenericMiner.defs
        AsyncMiner.defs GpuMiner.defs)

subsection \<open>The solve-attempt counter\<close>

lemma count_all_solution_count:
  "solution_count (count_all cs w) = solution_count w + sum_list cs"
  by (induction cs arbitrary: w) (simp_all add: count_solutions_def)

lemma count_all_result_queue:
  "result_queue (count_all cs w) = result_queue w"
  by (induction cs arbitrary: w) (simp_all add: count_solutions_def)

lemma submit_solution_installed:
  "result_queue w = Some q \<Longrightarrow>
   submit_solution jb n2 sol w =
     Inr (w\<lparr>result_queue := Some (q @ [(jb, n2, sol, solution_count w)]), solution_count := 0\<rparr>)"
  by (simp add: submit_solution_def)

text \<open>
  C1. With the result queue installed, two rounds of \<^verbatim>\<open>count_solutions\<close> calls, each
  followed by \<^verbatim>\<open>submit_solution\<close>, put two messages on the queue. Each carries the sum of
  the counts of its own round (the first also what the counter held before), and the
  counter is 0 after each submission: no attempt is reported twice.
\<close>

theorem submit_solution_reports_batch_once:
  assumes "result_queue w = Some q"
  shows "\<exists>w1 w2.
           submit_solution j1 a1 s1 (count_all cs1 w) = Inr w1 \<and>
           solution_count w1 = 0 \<and>
           result_queue w1 = Some (q @ [(j1, a1, s1, solution_count w + sum_list cs1)]) \<and>
           submit_solution j2 a2 s2 (count_all cs2 w1) = Inr w2 \<and>
           solution_count w2 = 0 \<and>
           result_queue w2 =
             Some (q @ [(j1, a1, s1, solution_count w + sum_list cs1), (j2, a2, s2, sum_list cs2)])"
proof -
  let ?m1 = "(j1, a1, s1, solution_count w + sum_list cs1)"
  define w1 where "w1 = (count_all cs1 w)\<lparr>result_queue := Some (q @ [?m1]), solution_count := 0\<rparr>"
  have q1: "result_queue (count_all cs1 w) = Some q"
    using assms by (simp add: count_all_result_queue)
  have s1: "submit_solution j1 a1 s1 (count_all cs1 w) = Inr w1"
    using submit_solution_installed [OF q1] by (simp add: w1_def count_all_solution_count)
  have c1: "solution_count w1 = 0" and r1: "result_queue w1 = Some (q @ [?m1])"
    by (simp_all add: w1_def)
  have q2: "result_queue (count_all cs2 w1) = Some (q @ [?m1])"
    using r1 by (simp add: count_all_result_queue)
  have n2: "solution_count (count_all cs2 w1) = sum_list cs2"
    using c1 by (simp add: count_all_solution_count)
  show ?thesis
    using s1 c1 r1 submit_solution_installed [OF q2, of j2 a2 s2] n2 by simp
qed

theorem submit_solution_reports_batch_once_witness:
  "result_queue worker_started = Some [] \<and>
   (\<exists>w1 w2.
      submit_solution J1 ''a'' ''b'' (count_all [2, 3] worker_started) = Inr w1 \<and>
      solution_count w1 = 0 \<and>
      result_queue w1 = Some [(J1, ''a'', ''b'', 5)] \<and>
      submit_solution J1 ''c'' ''d'' (count_all [4] w1) = Inr w2 \<and>
      solution_count w2 = 0 \<and>
      result_queue w2 = Some [(J1, ''a'', ''b'', 5), (J1, ''c'', ''d'', 4)])"
proof -
  have h: "result_queue worker_started = Some []"
    by (simp add: worker_started_def)
  have c: "solution_count worker_started = 0"
    by (simp add: worker_started_def GpuMinerProcess_init_fields)
  show ?thesis
    using h submit_solution_reports_batch_once [OF h, of J1 "''a''" "''b''" "[2, 3]" J1 "''c''" "''d''" "[4]"]
    by (simp add: c)
qed

subsection \<open>The loop body, case by case\<close>

lemma received_log_msg_Inr:
  "received_log_msg m = Inr (jb, msg) \<longleftrightarrow>
     (\<exists>b1 bs. m = (Some jb, Some b1, Some bs) \<and>
        msg = Received_mining_job (job_id jb) (hexlify b1) (hexlify bs))"
  by (auto simp: received_log_msg_def split: prod.splits option.splits)

lemma call_do_pow_Inr:
  "call_do_pow dp st jb = Inr st' \<longleftrightarrow>
     (\<exists>s' w'. dp (solver st) jb (self st) = Inr (s', w') \<and> st' = st\<lparr>self := w', solver := s'\<rparr>)"
  by (auto simp: call_do_pow_def split: sum.splits)

lemma loop_body_empty_idle:
  "work_queue_in st = [] \<Longrightarrow> job st = None \<or> nonce1 (self st) = None \<Longrightarrow>
   loop_body dp st = ([Log DEBUG No_nonce1_waiting, Sleep 2, Print ''.''], Inr st)"
  by (auto simp: loop_body_def split: option.splits)

lemma loop_body_empty_solve:
  "work_queue_in st = [] \<Longrightarrow> job st = Some jb \<Longrightarrow> nonce1 (self st) \<noteq> None \<Longrightarrow>
   loop_body dp st = ([Log DEBUG No_new_job_running_POW, Do_pow jb], call_do_pow dp st jb)"
  by (auto simp: loop_body_def split: option.splits)

lemma loop_body_receive:
  "work_queue_in st = (Some jb, Some b1, Some bs) # rest \<Longrightarrow>
   loop_body dp st =
     ([Log INFO (Received_mining_job (job_id jb) (hexlify b1) (hexlify bs)), Do_pow jb],
      call_do_pow dp
        (st\<lparr>job := Some jb, self := (self st)\<lparr>solver_nonce := Some bs, nonce1 := Some b1\<rparr>,
            work_queue_in := rest\<rparr>) jb)"
  by (simp add: loop_body_def received_log_msg_def)

lemma loop_body_receive_partial:
  "work_queue_in st = (j, n1, sn) # rest \<Longrightarrow> j = None \<or> n1 = None \<or> sn = None \<Longrightarrow>
   \<exists>e. loop_body dp st = ([], Inl e)"
  by (auto simp: loop_body_def received_log_msg_def split: option.splits)

text \<open>The five ways through the loop body.\<close>

lemma loop_body_cases:
  obtains
    (idle) "work_queue_in st = []" "job st = None \<or> nonce1 (self st) = None"
      "loop_body dp st = ([Log DEBUG No_nonce1_waiting, Sleep 2, Print ''.''], Inr st)"
  | (resolve) jb where "work_queue_in st = []" "job st = Some jb" "nonce1 (self st) \<noteq> None"
      "loop_body dp st = ([Log DEBUG No_new_job_running_POW, Do_pow jb], call_do_pow dp st jb)"
  | (received) jb b1 bs rest where "work_queue_in st = (Some jb, Some b1, Some bs) # rest"
      "loop_body dp st =
        ([Log INFO (Received_mining_job (job_id jb) (hexlify b1) (hexlify bs)), Do_pow jb],
         call_do_pow dp
           (st\<lparr>job := Some jb, self := (self st)\<lparr>solver_nonce := Some bs, nonce1 := Some b1\<rparr>,
               work_queue_in := rest\<rparr>) jb)"
  | (partial) j n1 sn rest e where "work_queue_in st = (j, n1, sn) # rest"
      "j = None \<or> n1 = None \<or> sn = None" "loop_body dp st = ([], Inl e)"
proof (cases "work_queue_in st")
  case Nil
  show ?thesis
  proof (cases "job st")
    case None
    with Nil idle loop_body_empty_idle [of st dp] show ?thesis by blast
  next
    case (Some jb)
    show ?thesis
    proof (cases "nonce1 (self st) = None")
      case True
      with Nil idle loop_body_empty_idle [of st dp] show ?thesis by blast
    next
      case False
      with Nil Some resolve loop_body_empty_solve [of st jb dp] show ?thesis by blast
    qed
  qed
next
  case (Cons m rest)
  obtain j n1 sn where m: "m = (j, n1, sn)" by (cases m) auto
  show ?thesis
  proof (cases "j = None \<or> n1 = None \<or> sn = None")
    case True
    with Cons m loop_body_receive_partial [of st j n1 sn rest dp] partial show ?thesis by blast
  next
    case False
    then obtain jb b1 bs where "j = Some jb" "n1 = Some b1" "sn = Some bs" by auto
    with Cons m loop_body_receive [of st jb b1 bs rest dp] received show ?thesis by blast
  qed
qed



lemma loop_body_keeps_result_queue:
  assumes frame: "\<forall>s j v s' v'. dp s j v = Inr (s', v') \<longrightarrow> result_queue v \<noteq> None \<longrightarrow> result_queue v' \<noteq> None"
    and inst: "result_queue (self st) \<noteq> None"
    and body: "loop_body dp st = (es, Inr st')"
  shows "result_queue (self st') \<noteq> None"
proof (cases rule: loop_body_cases [where st = st and dp = dp])
  case idle
  with body inst show ?thesis by auto
next
  case (resolve jb)
  with body inst frame show ?thesis
    by (auto simp: call_do_pow_Inr)
next
  case (received jb b1 bs rest)
  with body inst frame show ?thesis
    by (fastforce simp: call_do_pow_Inr)
next
  case (partial j n1 sn rest e)
  with body show ?thesis by auto
qed

lemma worker_loop_keeps_result_queue:
  assumes frame: "\<forall>s j v s' v'. dp s j v = Inr (s', v') \<longrightarrow> result_queue v \<noteq> None \<longrightarrow> result_queue v' \<noteq> None"
  shows "result_queue (self st) \<noteq> None \<Longrightarrow> worker_loop dp st sched = (es, Inr st') \<Longrightarrow>
         result_queue (self st') \<noteq> None"
proof (induction sched arbitrary: st es)
  case Nil
  then show ?case by auto
next
  case (Cons arrived sched)
  let ?st0 = "st\<lparr>work_queue_in := work_queue_in st @ arrived\<rparr>"
  obtain es1 r1 where body: "loop_body dp ?st0 = (es1, r1)" by (cases "loop_body dp ?st0") auto
  show ?case
  proof (cases r1)
    case (Inl e)
    with body Cons.prems(2) show ?thesis by auto
  next
    case (Inr st1)
    obtain es2 r2 where rest: "worker_loop dp st1 sched = (es2, r2)"
      by (cases "worker_loop dp st1 sched") auto
    have i0: "result_queue (self ?st0) \<noteq> None" using Cons.prems(1) by simp
    from body Inr have b1: "loop_body dp ?st0 = (es1, Inr st1)" by simp
    note i1 = loop_body_keeps_result_queue [OF frame i0 b1]
    from body Inr rest Cons.prems(2) have "r2 = Inr st'" by auto
    with rest Cons.IH [OF i1] show ?thesis by auto
  qed
qed

text \<open>
  C10. \<^verbatim>\<open>submit_solution\<close> on a freshly constructed worker fails its assertion. With a
  result queue installed it succeeds and appends the message. \<^verbatim>\<open>run\<close> installs the queue
  before the loop, and, when \<^verbatim>\<open>do_pow\<close> does not remove it, every state of the running
  loop has it.
\<close>

theorem submit_solution_needs_result_queue:
  "submit_solution jb n2 sol (GpuMinerProcess_init sn gid cls) = Inl (Exn AssertionError []) \<and>
   (\<forall>q. result_queue w = Some q \<longrightarrow>
      submit_solution jb n2 sol w =
        Inr (w\<lparr>result_queue := Some (q @ [(jb, n2, sol, solution_count w)]),
               solution_count := 0\<rparr>)) \<and>
   (\<forall>s. solver_class w0 (gpu_id w0) verbose = Inr s \<longrightarrow>
      snd (run dp verbose w0 rq wq []) =
        Inr \<lparr>self = w0\<lparr>result_queue := Some rq\<rparr>, solver = s, job = None, work_queue_in = wq\<rparr>) \<and>
   ((\<forall>s j v s' v'. dp s j v = Inr (s', v') \<longrightarrow> result_queue v \<noteq> None \<longrightarrow> result_queue v' \<noteq> None) \<longrightarrow>
      (\<forall>st. snd (run dp verbose w0 rq wq sched) = Inr st \<longrightarrow>
         (\<exists>q w'. result_queue (self st) = Some q \<and> submit_solution jb n2 sol (self st) = Inr w')))"
proof (intro conjI allI impI)
  show "submit_solution jb n2 sol (GpuMinerProcess_init sn gid cls) = Inl (Exn AssertionError [])"
    by (simp add: submit_solution_def GpuMinerProcess_init_fields)
next
  fix q assume "result_queue w = Some q"
  then show "submit_solution jb n2 sol w =
      Inr (w\<lparr>result_queue := Some (q @ [(jb, n2, sol, solution_count w)]), solution_count := 0\<rparr>)"
    by (rule submit_solution_installed)
next
  fix s assume "solver_class w0 (gpu_id w0) verbose = Inr s"
  then show "snd (run dp verbose w0 rq wq []) =
      Inr \<lparr>self = w0\<lparr>result_queue := Some rq\<rparr>, solver = s, job = None, work_queue_in = wq\<rparr>"
    by (simp add: run_def)
next
  fix st
  assume frame: "\<forall>s j v s' v'. dp s j v = Inr (s', v') \<longrightarrow> result_queue v \<noteq> None \<longrightarrow> result_queue v' \<noteq> None"
    and r: "snd (run dp verbose w0 rq wq sched) = Inr st"
  from r obtain s es where
    loop: "worker_loop dp \<lparr>self = w0\<lparr>result_queue := Some rq\<rparr>, solver = s, job = None,
             work_queue_in = wq\<rparr> sched = (es, Inr st)"
    by (auto simp: run_def split: sum.splits prod.splits)
  have "result_queue (self st) \<noteq> None"
    by (rule worker_loop_keeps_result_queue [OF frame _ loop]) simp
  then obtain q where q: "result_queue (self st) = Some q" by auto
  then show "\<exists>q w'. result_queue (self st) = Some q \<and> submit_solution jb n2 sol (self st) = Inr w'"
    using submit_solution_installed [OF q] by simp
qed


theorem submit_solution_needs_result_queue_witness:
  "submit_solution J1 ''n2'' ''sol'' (GpuMinerProcess_init (Some SN) (0, 0) solver_class_ok)
     = Inl (Exn AssertionError []) \<and>
   submit_solution J1 ''n2'' ''sol'' worker_started
     = Inr (worker_started\<lparr>result_queue := Some [(J1, ''n2'', ''sol'', 0)], solution_count := 0\<rparr>) \<and>
   snd (run do_pow_found False (GpuMinerProcess_init (Some SN) (0, 0) solver_class_ok) [] [] [])
     = Inr \<lparr>self = worker_started, solver = 0, job = None, work_queue_in = []\<rparr> \<and>
   (\<exists>st q w'.
      snd (run do_pow_found False (GpuMinerProcess_init (Some SN) (0, 0) solver_class_ok) []
             [(Some J1, Some N1, Some SN)] [[], []]) = Inr st \<and>
      result_queue (self st) = Some q \<and>
      submit_solution J1 ''n2'' ''sol'' (self st) = Inr w')"
proof -
  let ?w0 = "GpuMinerProcess_init (Some SN) (0, 0) solver_class_ok :: nat GpuMinerProcess"
  note t = submit_solution_needs_result_queue
    [of J1 "''n2''" "''sol''" "Some SN" "(0, 0)" solver_class_ok worker_started ?w0 False
        do_pow_found "[]" "[]"]
  have q: "result_queue worker_started = Some []"
    by (simp add: worker_started_def)
  have c: "solution_count worker_started = 0"
    by (simp add: worker_started_def GpuMinerProcess_init_fields)
  have cls: "solver_class ?w0 (gpu_id ?w0) False = Inr 0"
    by (simp add: GpuMinerProcess_init_fields solver_class_ok_def)
  have frame: "\<forall>s j v s' v'. do_pow_found s j v = Inr (s', v') \<longrightarrow>
      result_queue v \<noteq> None \<longrightarrow> result_queue v' \<noteq> None"
    by (auto simp: do_pow_found_def submit_solution_def count_solutions_def split: option.splits)
  have running: "\<exists>st. snd (run do_pow_found False ?w0 [] [(Some J1, Some N1, Some SN)] [[], []]) = Inr st"
    by (simp add: run_def GpuMinerProcess_init_fields solver_class_ok_def loop_body_def
          received_log_msg_def call_do_pow_def do_pow_found_def submit_solution_def
          count_solutions_def)
  then obtain st where st: "snd (run do_pow_found False ?w0 [] [(Some J1, Some N1, Some SN)] [[], []]) = Inr st" ..
  from submit_solution_needs_result_queue
    [of J1 "''n2''" "''sol''" "Some SN" "(0, 0)" solver_class_ok worker_started ?w0 False
        do_pow_found "[]" "[(Some J1, Some N1, Some SN)]" "[[], []]"] frame st
  have last: "\<exists>q w'. result_queue (self st) = Some q \<and> submit_solution J1 ''n2'' ''sol'' (self st) = Inr w'"
    by blast
  from t q c cls have first:
    "submit_solution J1 ''n2'' ''sol'' ?w0 = Inl (Exn AssertionError [])"
    "submit_solution J1 ''n2'' ''sol'' worker_started
       = Inr (worker_started\<lparr>result_queue := Some [(J1, ''n2'', ''sol'', 0)], solution_count := 0\<rparr>)"
    "snd (run do_pow_found False ?w0 [] [] [])
       = Inr \<lparr>self = worker_started, solver = 0, job = None, work_queue_in = []\<rparr>"
    by (simp_all add: worker_started_def)
  from first last st show ?thesis by blast
qed

subsection \<open>The frontend's enqueue\<close>

text \<open>
  C3. \<^verbatim>\<open>_enqueue_last_mining_job\<close> changes nothing and logs nothing when
  \<^verbatim>\<open>last_received_job\<close> or \<^verbatim>\<open>nonce1\<close> is \<^verbatim>\<open>None\<close>. When both are set it appends the one
  triple \<^verbatim>\<open>(last_received_job, nonce1, solver_nonce)\<close> to the work queue and changes
  nothing else.
\<close>

theorem enqueue_last_mining_job_guard:
  "(last_received_job slf = None \<or> nonce1 slf = None \<longrightarrow>
      enqueue_last_mining_job slf = ([], slf)) \<and>
   (\<forall>jb n. last_received_job slf = Some jb \<and> nonce1 slf = Some n \<longrightarrow>
      enqueue_last_mining_job slf =
        ([Log INFO (Queueing_new_job (job_id jb))],
         slf\<lparr>work_queue := work_queue slf @ [(Some jb, Some n, solver_nonce slf)]\<rparr>))"
  by (auto simp: enqueue_last_mining_job_def split: option.splits)

theorem enqueue_last_mining_job_guard_witness:
  "enqueue_last_mining_job frontend_fresh = ([], frontend_fresh) \<and>
   enqueue_last_mining_job (frontend_fresh\<lparr>nonce1 := Some N1\<rparr>)
     = ([], frontend_fresh\<lparr>nonce1 := Some N1\<rparr>) \<and>
   enqueue_last_mining_job (frontend_fresh\<lparr>nonce1 := Some N1, last_received_job := Some J1\<rparr>)
     = ([Log INFO (Queueing_new_job (job_id J1))],
        frontend_fresh\<lparr>nonce1 := Some N1, last_received_job := Some J1,
                        work_queue := [(Some J1, Some N1, Some SN)]\<rparr>)"
  using enqueue_last_mining_job_guard [of frontend_fresh]
    enqueue_last_mining_job_guard [of "frontend_fresh\<lparr>nonce1 := Some N1\<rparr>"]
    enqueue_last_mining_job_guard [of "frontend_fresh\<lparr>nonce1 := Some N1, last_received_job := Some J1\<rparr>"]
  by (simp add: frontend_fresh_def GpuMiner_init_fields)

text \<open>
  C6. From a frontend with no job and no nonce1, \<^verbatim>\<open>register_new_job\<close> then
  \<^verbatim>\<open>set_nonce1\<close>, and \<^verbatim>\<open>set_nonce1\<close> then \<^verbatim>\<open>register_new_job\<close>, each add exactly the
  one context \<^verbatim>\<open>(J1, N1, solver_nonce)\<close> to the work queue, and leave the same state.
\<close>

theorem job_and_nonce1_in_either_order:
  assumes "last_received_job slf = None" and "nonce1 slf = None"
  shows "work_queue (snd (set_nonce1 (Some n1) (snd (register_new_job (Some j1) cb slf))))
           = work_queue slf @ [(Some j1, Some n1, solver_nonce slf)] \<and>
         work_queue (snd (register_new_job (Some j1) cb (snd (set_nonce1 (Some n1) slf))))
           = work_queue slf @ [(Some j1, Some n1, solver_nonce slf)] \<and>
         snd (set_nonce1 (Some n1) (snd (register_new_job (Some j1) cb slf)))
           = snd (register_new_job (Some j1) cb (snd (set_nonce1 (Some n1) slf)))"
  using assms
  by (simp add: set_nonce1_def register_new_job_def enqueue_last_mining_job_def
        AsyncMiner_set_nonce1_def AsyncMiner_register_new_job_def)

theorem job_and_nonce1_in_either_order_witness:
  "last_received_job frontend_fresh = None \<and> nonce1 frontend_fresh = None \<and>
   work_queue (snd (set_nonce1 (Some N1) (snd (register_new_job (Some J1) 1 frontend_fresh))))
     = [(Some J1, Some N1, Some SN)] \<and>
   work_queue (snd (register_new_job (Some J1) 1 (snd (set_nonce1 (Some N1) frontend_fresh))))
     = [(Some J1, Some N1, Some SN)]"
proof -
  have h: "last_received_job frontend_fresh = None" "nonce1 frontend_fresh = None"
    by (simp_all add: frontend_fresh_def GpuMiner_init_fields)
  have f: "work_queue frontend_fresh = []" "solver_nonce frontend_fresh = Some SN"
    by (simp_all add: frontend_fresh_def GpuMiner_init_fields)
  show ?thesis
    using h job_and_nonce1_in_either_order [OF h, of N1 J1 1] by (simp add: f)
qed

subsection \<open>Idling and solving in the worker loop\<close>

text \<open>
  C4. When the poll finds the work queue empty and the job or nonce1 is absent, the pass
  through the loop body does not call \<^verbatim>\<open>do_pow\<close>: it logs, sleeps 2, prints a dot and
  leaves the state as it was; the loop then goes on with the next poll.
\<close>

theorem no_context_idles:
  assumes "work_queue_in st = []" and "job st = None \<or> nonce1 (self st) = None"
  shows "loop_body dp st = ([Log DEBUG No_nonce1_waiting, Sleep 2, Print ''.''], Inr st) \<and>
         worker_loop dp st ([] # sched) =
           (case worker_loop dp st sched of
              (es, r) \<Rightarrow> ([Log DEBUG No_nonce1_waiting, Sleep 2, Print ''.''] @ es, r))"
proof -
  have b: "loop_body dp st = ([Log DEBUG No_nonce1_waiting, Sleep 2, Print ''.''], Inr st)"
    using assms by (rule loop_body_empty_idle)
  have "st\<lparr>work_queue_in := work_queue_in st @ []\<rparr> = st" by simp
  then show ?thesis using b by (simp split: prod.splits)
qed


theorem no_context_idles_witness:
  "work_queue_in state_no_context = [] \<and> job state_no_context = None \<and>
   loop_body do_pow_found state_no_context
     = ([Log DEBUG No_nonce1_waiting, Sleep 2, Print ''.''], Inr state_no_context) \<and>
   worker_loop do_pow_found state_no_context [[], []]
     = ([Log DEBUG No_nonce1_waiting, Sleep 2, Print ''.'',
         Log DEBUG No_nonce1_waiting, Sleep 2, Print ''.''], Inr state_no_context)"
proof -
  have h: "work_queue_in state_no_context = []" "job state_no_context = None"
    by (simp_all add: state_no_context_def)
  from h(2) have h2: "job state_no_context = None \<or> nonce1 (self state_no_context) = None" ..
  show ?thesis
    using h no_context_idles [OF h(1) h2, of do_pow_found "[[]]"]
      no_context_idles [OF h(1) h2, of do_pow_found "[]"]
    by simp
qed




subsection \<open>Delivery order of the work queue\<close>

lemma worker_loop_pass_returns:
  "loop_body dp (st\<lparr>work_queue_in := work_queue_in st @ arrived\<rparr>) = (es, Inr st') \<Longrightarrow>
   worker_loop dp st (arrived # sched) =
     (es @ fst (worker_loop dp st' sched), snd (worker_loop dp st' sched))"
  by (simp split: prod.splits)

lemma worker_loop_one_pass:
  "fst (worker_loop dp st [arrived]) =
     fst (loop_body dp (st\<lparr>work_queue_in := work_queue_in st @ arrived\<rparr>))"
proof (cases "loop_body dp (st\<lparr>work_queue_in := work_queue_in st @ arrived\<rparr>)")
  case (Pair es r)
  then show ?thesis by (cases r) simp_all
qed

text \<open>
  C2, as the code has it. When two complete contexts are on the work queue before the
  worker polls, the worker receives them in the order they were put, one per pass: the
  first pass takes the older context and calls \<^verbatim>\<open>do_pow\<close> on its job; when that call
  returns, the second pass takes the newer context and calls \<^verbatim>\<open>do_pow\<close> on its job.
\<close>

theorem work_queue_is_first_in_first_out:
  assumes q: "work_queue_in st = (Some j1, Some a1, Some b1) # (Some j2, Some a2, Some b2) # rest"
    and dp1: "dp (solver st) j1 ((self st)\<lparr>solver_nonce := Some b1, nonce1 := Some a1\<rparr>) = Inr (s', w')"
  shows "fst (worker_loop dp st [[]]) =
           [Log INFO (Received_mining_job (job_id j1) (hexlify a1) (hexlify b1)), Do_pow j1] \<and>
         fst (worker_loop dp st [[], []]) =
           [Log INFO (Received_mining_job (job_id j1) (hexlify a1) (hexlify b1)), Do_pow j1,
            Log INFO (Received_mining_job (job_id j2) (hexlify a2) (hexlify b2)), Do_pow j2]"
proof -
  let ?st0 = "st\<lparr>work_queue_in := work_queue_in st @ []\<rparr>"
  let ?st1 = "st\<lparr>job := Some j1, self := w', solver := s',
                 work_queue_in := (Some j2, Some a2, Some b2) # rest\<rparr>"
  let ?e1 = "[Log INFO (Received_mining_job (job_id j1) (hexlify a1) (hexlify b1)), Do_pow j1]"
  let ?e2 = "[Log INFO (Received_mining_job (job_id j2) (hexlify a2) (hexlify b2)), Do_pow j2]"
  have st0: "?st0 = st" by simp
  have b1: "loop_body dp st = (?e1, Inr ?st1)"
    using loop_body_receive [OF q, of dp] dp1 by (simp add: call_do_pow_def)
  have q1: "work_queue_in (?st1\<lparr>work_queue_in := work_queue_in ?st1 @ []\<rparr>)
              = (Some j2, Some a2, Some b2) # rest"
    by simp
  have b2: "fst (loop_body dp (?st1\<lparr>work_queue_in := work_queue_in ?st1 @ []\<rparr>)) = ?e2"
    using loop_body_receive [OF q1, of dp] by simp
  have one: "fst (worker_loop dp st [[]]) = ?e1"
    using b1 by (simp add: st0)
  have next_pass: "fst (worker_loop dp ?st1 [[]]) = ?e2"
    using b2 by (simp only: worker_loop_one_pass)
  have "loop_body dp ?st0 = (?e1, Inr ?st1)"
    using b1 by (simp only: st0)
  from worker_loop_pass_returns [OF this, of "[[]]"]
  have two: "fst (worker_loop dp st [[], []]) = ?e1 @ ?e2"
    by (simp only: next_pass fst_conv)
  from one two show ?thesis by simp
qed


theorem work_queue_is_first_in_first_out_witness:
  "work_queue_in
     (state_no_context\<lparr>work_queue_in := [(Some J1, Some N1, Some SN), (Some J2, Some N1, Some SN)]\<rparr>)
     = [(Some J1, Some N1, Some SN), (Some J2, Some N1, Some SN)] \<and>
   fst (worker_loop do_pow_found
          (state_no_context\<lparr>work_queue_in := [(Some J1, Some N1, Some SN), (Some J2, Some N1, Some SN)]\<rparr>)
          [[], []])
     = [Log INFO (Received_mining_job (job_id J1) (hexlify N1) (hexlify SN)), Do_pow J1,
        Log INFO (Received_mining_job (job_id J2) (hexlify N1) (hexlify SN)), Do_pow J2]"
proof -
  let ?st = "state_no_context\<lparr>work_queue_in :=
               [(Some J1, Some N1, Some SN), (Some J2, Some N1, Some SN)]\<rparr>"
  have q: "work_queue_in ?st = (Some J1, Some N1, Some SN) # (Some J2, Some N1, Some SN) # []"
    by simp
  have "\<exists>s' w'. do_pow_found (solver ?st) J1
          ((self ?st)\<lparr>solver_nonce := Some SN, nonce1 := Some N1\<rparr>) = Inr (s', w')"
    by (simp add: state_no_context_def worker_started_def do_pow_found_def submit_solution_def
          count_solutions_def)
  then obtain s' w' where dp1: "do_pow_found (solver ?st) J1
          ((self ?st)\<lparr>solver_nonce := Some SN, nonce1 := Some N1\<rparr>) = Inr (s', w')"
    by blast
  note t = work_queue_is_first_in_first_out
    [of ?st J1 N1 SN J2 N1 SN "[]" do_pow_found s' w']
  show ?thesis
    using q dp1 t by simp
qed

theorem earlier_context_is_received_first:
  "work_queue (snd (register_new_job (Some J2) 1
      (snd (set_nonce1 (Some N1) (snd (register_new_job (Some J1) 1 frontend_fresh))))))
     = [(Some J1, Some N1, Some SN), (Some J2, Some N1, Some SN)] \<and>
   fst (run do_pow_found False (GpuMinerProcess_init (Some SN) (0, 0) solver_class_ok) []
          [(Some J1, Some N1, Some SN), (Some J2, Some N1, Some SN)] [[]])
     = [Log DEBUG (Instantiating_GPU_solver False), Log DEBUG (Instantiated_GPU_solver False),
        Log INFO (Received_mining_job (job_id J1) (hexlify N1) (hexlify SN)), Do_pow J1] \<and>
   (\<exists>st. snd (run do_pow_found False (GpuMinerProcess_init (Some SN) (0, 0) solver_class_ok) []
                [(Some J1, Some N1, Some SN), (Some J2, Some N1, Some SN)] [[]]) = Inr st \<and>
      job st = Some J1 \<and> work_queue_in st = [(Some J2, Some N1, Some SN)])"
proof (intro conjI)
  show "work_queue (snd (register_new_job (Some J2) 1
      (snd (set_nonce1 (Some N1) (snd (register_new_job (Some J1) 1 frontend_fresh))))))
     = [(Some J1, Some N1, Some SN), (Some J2, Some N1, Some SN)]"
    by (simp add: frontend_fresh_def GpuMiner_init_fields set_nonce1_def register_new_job_def
          enqueue_last_mining_job_def AsyncMiner_set_nonce1_def AsyncMiner_register_new_job_def)
next
  show "fst (run do_pow_found False (GpuMinerProcess_init (Some SN) (0, 0) solver_class_ok) []
          [(Some J1, Some N1, Some SN), (Some J2, Some N1, Some SN)] [[]])
     = [Log DEBUG (Instantiating_GPU_solver False), Log DEBUG (Instantiated_GPU_solver False),
        Log INFO (Received_mining_job (job_id J1) (hexlify N1) (hexlify SN)), Do_pow J1]"
    by (simp add: run_def GpuMinerProcess_init_fields solver_class_ok_def loop_body_def
          received_log_msg_def call_do_pow_def do_pow_found_def submit_solution_def
          count_solutions_def)
next
  show "\<exists>st. snd (run do_pow_found False (GpuMinerProcess_init (Some SN) (0, 0) solver_class_ok) []
                [(Some J1, Some N1, Some SN), (Some J2, Some N1, Some SN)] [[]]) = Inr st \<and>
      job st = Some J1 \<and> work_queue_in st = [(Some J2, Some N1, Some SN)]"
    by (simp add: run_def GpuMinerProcess_init_fields solver_class_ok_def loop_body_def
          received_log_msg_def call_do_pow_def do_pow_found_def submit_solution_def
          count_solutions_def)
qed

subsection \<open>What the idle guard tests\<close>





subsection \<open>The supervisor\<close>









subsection \<open>The frontend's receive loop\<close>

lemma frontend_loop_stopped:
  "stop slf \<Longrightarrow> frontend_loop slf ds = ([], Finished slf)"
  by (cases ds) auto

lemma frontend_loop_finishes_stopped:
  "frontend_loop slf ds = (es, Finished s') \<Longrightarrow> stop s'"
proof (induction ds arbitrary: slf es)
  case Nil
  then show ?case by (auto split: if_splits)
next
  case (Cons d ds)
  obtain jb nonce2 sol counted stop_next where d: "d = ((jb, nonce2, sol, counted), stop_next)"
    by (cases d) auto
  show ?case
  proof (cases "stop slf")
    case True
    with Cons.prems show ?thesis by (simp add: frontend_loop_stopped)
  next
    case False
    obtain es' r where rec: "frontend_loop (slf\<lparr>stop := stop_next\<rparr>) ds = (es', r)"
      by (cases "frontend_loop (slf\<lparr>stop := stop_next\<rparr>) ds") auto
    with False Cons.prems d have "r = Finished s'"
      by (simp add: AsyncMiner_count_solutions_def AsyncMiner_submit_solution_def)
    with rec Cons.IH show ?thesis by blast
  qed
qed

text \<open>
  C9. While the stop flag is not set, a message \<^verbatim>\<open>(job, nonce2, solution, counted)\<close>
  taken from the result queue makes the loop log the receipt, apply \<^verbatim>\<open>counted\<close> to the
  accounting callback once and forward \<^verbatim>\<open>(job, nonce2, solution)\<close> once, in that order,
  before it tests the flag again. With the flag set the loop ends without a receive,
  and the loop ends only with the flag set.
\<close>

theorem frontend_loop_handles_each_message_once:
  "(\<not> stop slf \<longrightarrow>
      frontend_loop slf (((jb, nonce2, sol, counted), stop_next) # ds) =
        (Log DEBUG Received_solution_from_backend # Accounting (counter slf) counted
           # Forward_submission jb nonce2 sol # fst (frontend_loop (slf\<lparr>stop := stop_next\<rparr>) ds),
         snd (frontend_loop (slf\<lparr>stop := stop_next\<rparr>) ds))) \<and>
   (stop slf \<longrightarrow> frontend_loop slf ds' = ([], Finished slf)) \<and>
   (\<forall>es s'. frontend_loop slf ds' = (es, Finished s') \<longrightarrow> stop s') \<and>
   (\<forall>es s'. GpuMiner_run slf ds' = (es, Finished s') \<longrightarrow> stop s')"
proof (intro conjI allI impI)
  assume "\<not> stop slf"
  then show "frontend_loop slf (((jb, nonce2, sol, counted), stop_next) # ds) =
        (Log DEBUG Received_solution_from_backend # Accounting (counter slf) counted
           # Forward_submission jb nonce2 sol # fst (frontend_loop (slf\<lparr>stop := stop_next\<rparr>) ds),
         snd (frontend_loop (slf\<lparr>stop := stop_next\<rparr>) ds))"
    by (simp add: AsyncMiner_count_solutions_def AsyncMiner_submit_solution_def
          split: prod.splits)
next
  assume "stop slf"
  then show "frontend_loop slf ds' = ([], Finished slf)" by (rule frontend_loop_stopped)
next
  fix es s' assume "frontend_loop slf ds' = (es, Finished s')"
  then show "stop s'" by (rule frontend_loop_finishes_stopped)
next
  fix es s' assume "GpuMiner_run slf ds' = (es, Finished s')"
  then obtain es' where "frontend_loop slf ds' = (es', Finished s')"
    by (auto simp: GpuMiner_run_def split: prod.splits)
  then show "stop s'" by (rule frontend_loop_finishes_stopped)
qed

theorem frontend_loop_handles_each_message_once_witness:
  "\<not> stop frontend_fresh \<and>
   GpuMiner_run frontend_fresh
       [((J1, ''a'', ''b'', 5), False), ((J1, ''c'', ''d'', 0), True), ((J2, ''e'', ''f'', 7), True)]
     = ([Log DEBUG Starting_process_backend, Spawn_miner_process (Some SN) (0, 0),
         Log DEBUG Received_solution_from_backend, Accounting 0 5,
         Forward_submission J1 ''a'' ''b'',
         Log DEBUG Received_solution_from_backend, Accounting 0 0,
         Forward_submission J1 ''c'' ''d''],
        Finished (frontend_fresh\<lparr>stop := True\<rparr>)) \<and>
   stop (frontend_fresh\<lparr>stop := True\<rparr>)"
proof -
  let ?d3 = "[((J2, ''e'', ''f'', 7), True)]"
  let ?d2 = "((J1, ''c'', ''d'', 0), True) # ?d3"
  have ns: "\<not> stop frontend_fresh"
    by (simp add: frontend_fresh_def GpuMiner_init_fields)
  have c: "counter frontend_fresh = 0" "solver_nonce frontend_fresh = Some SN"
    "fe_gpu_id frontend_fresh = (0, 0)"
    by (simp_all add: frontend_fresh_def GpuMiner_init_fields)
  note t1 = frontend_loop_handles_each_message_once
    [of frontend_fresh J1 "''a''" "''b''" 5 False ?d2 "[]"]
  note t2 = frontend_loop_handles_each_message_once
    [of "frontend_fresh\<lparr>stop := False\<rparr>" J1 "''c''" "''d''" 0 True ?d3 "[]"]
  note t3 = frontend_loop_handles_each_message_once
    [of "frontend_fresh\<lparr>stop := True\<rparr>" J2 "''e''" "''f''" 7 True "[]" ?d3]
  from t3 have l3: "frontend_loop (frontend_fresh\<lparr>stop := True\<rparr>) ?d3
      = ([], Finished (frontend_fresh\<lparr>stop := True\<rparr>))"
    by simp
  from t2 l3 have l2: "frontend_loop (frontend_fresh\<lparr>stop := False\<rparr>) ?d2
      = ([Log DEBUG Received_solution_from_backend, Accounting 0 0,
          Forward_submission J1 ''c'' ''d''], Finished (frontend_fresh\<lparr>stop := True\<rparr>))"
    by (simp add: c)
  from t1 l2 ns have l1: "frontend_loop frontend_fresh (((J1, ''a'', ''b'', 5), False) # ?d2)
      = ([Log DEBUG Received_solution_from_backend, Accounting 0 5,
          Forward_submission J1 ''a'' ''b'',
          Log DEBUG Received_solution_from_backend, Accounting 0 0,
          Forward_submission J1 ''c'' ''d''], Finished (frontend_fresh\<lparr>stop := True\<rparr>))"
    by (simp add: c)
  show ?thesis
    using ns l1 by (simp add: GpuMiner_run_def c)
qed

end
